theory Spec2Isabelle
  imports Main
begin

section \<open>The MCP Streamable HTTP client of examples/python-mcp-client/example.py\<close>

text \<open>
  The script drives one session through initialize, the initialized notification,
  tools/list, tools/call and the terminating DELETE. The HTTP client it calls is an
  external capability; here it is a parameter of the model (a function giving the reply
  to the n-th request), and the run records every request handed to it and every line
  printed, so that what the script sends, prints and raises can be stated.
\<close>

subsection \<open>JSON values and the Python operations the script applies to them\<close>

text \<open>
  What \<open>resp.json()\<close> returns and what \<open>json=\<close> sends. A dict is an association
  list in insertion order, read with \<open>map_of\<close>. Numbers are the integers the protocol
  uses (request ids).
\<close>

datatype json =
    JNull
  | JBool bool
  | JInt int
  | JStr string
  | JArr "json list"
  | JObj "(string \<times> json) list"

text \<open>The exceptions a run can end with, by Python class.\<close>

datatype error =
    TransportError
  | HTTPStatusError int
  | JSONDecodeError
  | KeyError string
  | IndexError
  | TypeError
  | AttributeError

text \<open>\<open>KeyError\<close> and \<open>IndexError\<close> are the subclasses of Python's \<open>LookupError\<close>.\<close>

fun is_lookup_error :: "error \<Rightarrow> bool" where
  "is_lookup_error (KeyError k) = True"
| "is_lookup_error IndexError = True"
| "is_lookup_error e = False"

text \<open>Truth value of an object, as \<open>if params:\<close> and \<open>if result.get("isError"):\<close> test it.\<close>

fun truthy :: "json \<Rightarrow> bool" where
  "truthy JNull = False"
| "truthy (JBool b) = b"
| "truthy (JInt i) = (i \<noteq> 0)"
| "truthy (JStr s) = (s \<noteq> [])"
| "truthy (JArr xs) = (xs \<noteq> [])"
| "truthy (JObj kvs) = (kvs \<noteq> [])"

text \<open>\<open>v[key]\<close> with a string key: only a dict can be read; a missing key raises.\<close>

fun subscript :: "json \<Rightarrow> string \<Rightarrow> error + json" where
  "subscript (JObj kvs) k = (case map_of kvs k of None \<Rightarrow> Inl (KeyError k) | Some v \<Rightarrow> Inr v)"
| "subscript v k = Inl TypeError"

text \<open>
  \<open>v[0]\<close>: the first element of a list, the first character of a string (a string of
  length one); a dict parsed from JSON has string keys only, so the key 0 is missing.
\<close>

fun subscript0 :: "json \<Rightarrow> error + json" where
  "subscript0 (JArr []) = Inl IndexError"
| "subscript0 (JArr (x # xs)) = Inr x"
| "subscript0 (JStr []) = Inl IndexError"
| "subscript0 (JStr (c # cs)) = Inr (JStr [c])"
| "subscript0 (JObj kvs) = Inl (KeyError ''0'')"
| "subscript0 v = Inl TypeError"

text \<open>\<open>v.get(key, default)\<close>: a dict method; any other value has no attribute \<open>get\<close>.\<close>

fun get_default :: "json \<Rightarrow> string \<Rightarrow> json \<Rightarrow> error + json" where
  "get_default (JObj kvs) k d = (case map_of kvs k of None \<Rightarrow> Inr d | Some v \<Rightarrow> Inr v)"
| "get_default v k d = Inl AttributeError"

text \<open>\<open>v[:80]\<close>: strings and lists are sliced, nothing else is.\<close>

fun slice80 :: "json \<Rightarrow> error + json" where
  "slice80 (JStr s) = Inr (JStr (take 80 s))"
| "slice80 (JArr xs) = Inr (JArr (take 80 xs))"
| "slice80 v = Inl TypeError"

text \<open>\<open>len(v)\<close> and the elements \<open>for t in v\<close> visits.\<close>

fun py_len :: "json \<Rightarrow> error + nat" where
  "py_len (JArr xs) = Inr (length xs)"
| "py_len (JObj kvs) = Inr (length kvs)"
| "py_len (JStr s) = Inr (length s)"
| "py_len v = Inl TypeError"

fun py_iter :: "json \<Rightarrow> error + json list" where
  "py_iter (JArr xs) = Inr xs"
| "py_iter (JObj kvs) = Inr (map (\<lambda>kv. JStr (fst kv)) kvs)"
| "py_iter (JStr s) = Inr (map (\<lambda>c. JStr [c]) s)"
| "py_iter v = Inl TypeError"

subsection \<open>The request builder\<close>

text \<open>
  \<open>jsonrpc(method, params=None, req_id=1)\<close>. An argument left out is \<open>None\<close> here;
  for \<open>req_id\<close> that stands for the default 1.
\<close>

definition jsonrpc :: "string \<Rightarrow> (string \<times> json) list option \<Rightarrow> int option \<Rightarrow> (string \<times> json) list" where
  "jsonrpc method params req_id =
     (let body = [(''jsonrpc'', JStr ''2.0''),
                  (''id'', JInt (case req_id of None \<Rightarrow> 1 | Some i \<Rightarrow> i)),
                  (''method'', JStr method)]
      in case params of
           None \<Rightarrow> body
         | Some p \<Rightarrow> if truthy (JObj p) then body @ [(''params'', JObj p)] else body)"

subsection \<open>Requests, replies and the run\<close>

datatype http_method = POST | DELETE

record request =
  req_method :: http_method
  req_url :: string
  req_headers :: "(string \<times> string) list"
  req_json :: "json option"

text \<open>
  A response: its status, its headers (keyed by lower-cased name, the way the client's
  case-insensitive header lookup reads them) and its body parsed as JSON, \<open>None\<close> when
  the body is not JSON.
\<close>

record response =
  status_code :: int
  resp_headers :: "(string \<times> string) list"
  resp_json :: "json option"

datatype reply = TransportFailure | Response response

text \<open>The transport: the reply to a request, given how many requests were sent before it.\<close>

type_synonym transport = "nat \<Rightarrow> request \<Rightarrow> reply"

text \<open>What the script prints, one constructor per \<open>print\<close> call.\<close>

datatype line =
    Connected json json
  | SessionLine string
  | AvailableTools nat
  | ToolLine json json
  | Blank
  | ToolErrorLine json
  | LsResult
  | Payload json
  | SessionClosed int

record run =
  sent :: "request list"
  printed :: "line list"

text \<open>A statement of the script: it changes the run and either raises or yields a value.\<close>

type_synonym 'a action = "run \<Rightarrow> (error + 'a) \<times> run"

definition returns :: "'a \<Rightarrow> 'a action" where
  "returns v = (\<lambda>s. (Inr v, s))"

definition liftE :: "error + 'a \<Rightarrow> 'a action" where
  "liftE r = (\<lambda>s. (r, s))"

definition andthen :: "'a action \<Rightarrow> ('a \<Rightarrow> 'b action) \<Rightarrow> 'b action" where
  "andthen m f = (\<lambda>s. case m s of (Inl e, s') \<Rightarrow> (Inl e, s') | (Inr v, s') \<Rightarrow> f v s')"

definition py_print :: "line \<Rightarrow> unit action" where
  "py_print ln = (\<lambda>s. (Inr (), s\<lparr>printed := printed s @ [ln]\<rparr>))"

text \<open>\<open>client.post\<close> and \<open>client.delete\<close>: the request goes out, then the reply or the exception.\<close>

definition send :: "transport \<Rightarrow> request \<Rightarrow> response action" where
  "send tr rq = (\<lambda>s.
     (case tr (length (sent s)) rq of
        TransportFailure \<Rightarrow> Inl TransportError
      | Response r \<Rightarrow> Inr r,
      s\<lparr>sent := sent s @ [rq]\<rparr>))"

text \<open>\<open>resp.raise_for_status()\<close>: any status outside 200..299 raises.\<close>

definition raise_for_status :: "response \<Rightarrow> error + unit" where
  "raise_for_status r =
     (if 200 \<le> status_code r \<and> status_code r \<le> 299 then Inr ()
      else Inl (HTTPStatusError (status_code r)))"

text \<open>\<open>resp.headers[name]\<close> and \<open>resp.json()\<close>.\<close>

definition header :: "response \<Rightarrow> string \<Rightarrow> error + string" where
  "header r name = (case map_of (resp_headers r) name of None \<Rightarrow> Inl (KeyError name) | Some v \<Rightarrow> Inr v)"

definition json_of :: "response \<Rightarrow> error + json" where
  "json_of r = (case resp_json r of None \<Rightarrow> Inl JSONDecodeError | Some j \<Rightarrow> Inr j)"

subsection \<open>The five steps of main\<close>

definition BASE_URL :: string where
  "BASE_URL = ''http://localhost:3000''"

definition post :: "transport \<Rightarrow> string \<Rightarrow> (string \<times> json) list \<Rightarrow> (string \<times> string) list \<Rightarrow> response action" where
  "post tr url body hdrs =
     send tr \<lparr>req_method = POST, req_url = url, req_headers = hdrs, req_json = Some (JObj body)\<rparr>"

definition delete :: "transport \<Rightarrow> string \<Rightarrow> (string \<times> string) list \<Rightarrow> response action" where
  "delete tr url hdrs =
     send tr \<lparr>req_method = DELETE, req_url = url, req_headers = hdrs, req_json = None\<rparr>"

text \<open>Step 1 (lines 28-33): yields \<open>session_id\<close>.\<close>

definition initialize :: "transport \<Rightarrow> string \<Rightarrow> string action" where
  "initialize tr url =
     andthen (post tr url (jsonrpc ''initialize'' None None) []) (\<lambda>resp.
     andthen (liftE (raise_for_status resp)) (\<lambda>_.
     andthen (liftE (header resp ''mcp-session-id'')) (\<lambda>session_id.
     andthen (liftE (json_of resp)) (\<lambda>j.
     andthen (liftE (subscript j ''result'')) (\<lambda>res.
     andthen (liftE (subscript res ''serverInfo'')) (\<lambda>server_info.
     andthen (liftE (subscript server_info ''name'')) (\<lambda>nm.
     andthen (liftE (subscript server_info ''version'')) (\<lambda>ver.
     andthen (py_print (Connected nm ver)) (\<lambda>_.
     andthen (py_print (SessionLine session_id)) (\<lambda>_.
     returns session_id))))))))))"

text \<open>Step 2 (line 38): the notification; the response is dropped.\<close>

definition notify_initialized :: "transport \<Rightarrow> string \<Rightarrow> (string \<times> string) list \<Rightarrow> unit action" where
  "notify_initialized tr url hdrs =
     andthen (post tr url [(''jsonrpc'', JStr ''2.0''), (''method'', JStr ''notifications/initialized'')] hdrs)
       (\<lambda>_. returns ())"

text \<open>Step 3 (lines 41-47).\<close>

fun print_tools :: "json list \<Rightarrow> unit action" where
  "print_tools [] = returns ()"
| "print_tools (t # ts) =
     andthen (liftE (subscript t ''name'')) (\<lambda>nm.
     andthen (liftE (get_default t ''description'' (JStr ''''))) (\<lambda>d.
     andthen (liftE (slice80 d)) (\<lambda>pv.
     andthen (py_print (ToolLine nm pv)) (\<lambda>_.
     print_tools ts))))"

definition list_tools :: "transport \<Rightarrow> string \<Rightarrow> (string \<times> string) list \<Rightarrow> unit action" where
  "list_tools tr url hdrs =
     andthen (post tr url (jsonrpc ''tools/list'' None (Some 2)) hdrs) (\<lambda>resp.
     andthen (liftE (raise_for_status resp)) (\<lambda>_.
     andthen (liftE (json_of resp)) (\<lambda>j.
     andthen (liftE (subscript j ''result'')) (\<lambda>res.
     andthen (liftE (subscript res ''tools'')) (\<lambda>tools.
     andthen (liftE (py_len tools)) (\<lambda>n.
     andthen (py_print (AvailableTools n)) (\<lambda>_.
     andthen (liftE (py_iter tools)) (\<lambda>ts.
     andthen (print_tools ts) (\<lambda>_.
     py_print Blank)))))))))"

text \<open>Step 4 (lines 50-62).\<close>

definition call_tool :: "transport \<Rightarrow> string \<Rightarrow> (string \<times> string) list \<Rightarrow> unit action" where
  "call_tool tr url hdrs =
     andthen (post tr url
                (jsonrpc ''tools/call''
                   (Some [(''name'', JStr ''ls''), (''arguments'', JObj [(''path'', JStr ''.'')])])
                   (Some 3))
                hdrs) (\<lambda>resp.
     andthen (liftE (raise_for_status resp)) (\<lambda>_.
     andthen (liftE (json_of resp)) (\<lambda>j.
     andthen (liftE (subscript j ''result'')) (\<lambda>result.
     andthen (liftE (get_default result ''isError'' JNull)) (\<lambda>is_error.
     andthen
       (if truthy is_error then
          andthen (liftE (subscript result ''content'')) (\<lambda>c.
          andthen (liftE (subscript0 c)) (\<lambda>c0.
          andthen (liftE (subscript c0 ''text'')) (\<lambda>txt.
          py_print (ToolErrorLine txt))))
        else
          andthen (py_print LsResult) (\<lambda>_.
          andthen (liftE (subscript result ''content'')) (\<lambda>c.
          andthen (liftE (subscript0 c)) (\<lambda>c0.
          andthen (liftE (subscript c0 ''text'')) (\<lambda>txt.
          py_print (Payload txt))))))
       (\<lambda>_. py_print Blank))))))"

text \<open>Step 5 (lines 65-66).\<close>

definition close_session :: "transport \<Rightarrow> string \<Rightarrow> (string \<times> string) list \<Rightarrow> unit action" where
  "close_session tr url hdrs =
     andthen (delete tr url hdrs) (\<lambda>resp. py_print (SessionClosed (status_code resp)))"

text \<open>Line 24: the URL is \<open>sys.argv[1]\<close> when given.\<close>

definition url_of :: "string list \<Rightarrow> string" where
  "url_of argv = (if length argv > 1 then argv ! 1 else BASE_URL)"

definition fresh :: run where
  "fresh = \<lparr>sent = [], printed = []\<rparr>"

text \<open>
  \<open>main\<close>, from a fresh client. The result is the exception that ended the run, if
  any, with the requests sent and the lines printed.
\<close>

definition main :: "transport \<Rightarrow> string list \<Rightarrow> (error + unit) \<times> run" where
  "main tr argv =
     (let url = url_of argv in
      andthen (initialize tr url) (\<lambda>session_id.
        let headers = [(''Mcp-Session-Id'', session_id)] in
        andthen (notify_initialized tr url headers) (\<lambda>_.
        andthen (list_tools tr url headers) (\<lambda>_.
        andthen (call_tool tr url headers) (\<lambda>_.
        close_session tr url headers))))
      fresh)"

subsection \<open>The requests of a run, named\<close>

text \<open>The five requests the steps hand to the client, as the definitions above build them.\<close>

definition init_request :: "string \<Rightarrow> request" where
  "init_request url =
     \<lparr>req_method = POST, req_url = url, req_headers = [],
      req_json = Some (JObj (jsonrpc ''initialize'' None None))\<rparr>"

definition notify_request :: "string \<Rightarrow> (string \<times> string) list \<Rightarrow> request" where
  "notify_request url hdrs =
     \<lparr>req_method = POST, req_url = url, req_headers = hdrs,
      req_json = Some (JObj [(''jsonrpc'', JStr ''2.0''), (''method'', JStr ''notifications/initialized'')])\<rparr>"

definition list_request :: "string \<Rightarrow> (string \<times> string) list \<Rightarrow> request" where
  "list_request url hdrs =
     \<lparr>req_method = POST, req_url = url, req_headers = hdrs,
      req_json = Some (JObj (jsonrpc ''tools/list'' None (Some 2)))\<rparr>"

definition call_request :: "string \<Rightarrow> (string \<times> string) list \<Rightarrow> request" where
  "call_request url hdrs =
     \<lparr>req_method = POST, req_url = url, req_headers = hdrs,
      req_json = Some (JObj (jsonrpc ''tools/call''
                   (Some [(''name'', JStr ''ls''), (''arguments'', JObj [(''path'', JStr ''.'')])])
                   (Some 3)))\<rparr>"

definition delete_request :: "string \<Rightarrow> (string \<times> string) list \<Rightarrow> request" where
  "delete_request url hdrs =
     \<lparr>req_method = DELETE, req_url = url, req_headers = hdrs, req_json = None\<rparr>"

definition session_headers :: "string \<Rightarrow> (string \<times> string) list" where
  "session_headers sid = [(''Mcp-Session-Id'', sid)]"

definition lifecycle :: "string \<Rightarrow> string \<Rightarrow> request list" where
  "lifecycle url sid =
     [init_request url,
      notify_request url (session_headers sid),
      list_request url (session_headers sid),
      call_request url (session_headers sid),
      delete_request url (session_headers sid)]"

text \<open>The JSON-RPC id a request carries, if it carries one.\<close>

definition request_id :: "request \<Rightarrow> int option" where
  "request_id rq =
     (case req_json rq of
        Some (JObj kvs) \<Rightarrow> (case map_of kvs ''id'' of Some (JInt i) \<Rightarrow> Some i | _ \<Rightarrow> None)
      | _ \<Rightarrow> None)"

definition request_ids :: "request list \<Rightarrow> int list" where
  "request_ids rqs = List.map_filter request_id rqs"

definition ok_status :: "response \<Rightarrow> bool" where
  "ok_status r = (200 \<le> status_code r \<and> status_code r \<le> 299)"

subsection \<open>Servers for concrete runs\<close>

text \<open>A server that answers the n-th request with the n-th reply of a script, and is unreachable after it.\<close>

definition scripted :: "reply list \<Rightarrow> transport" where
  "scripted rs n rq = (if n < length rs then rs ! n else TransportFailure)"

definition init_ok :: reply where
  "init_ok = Response \<lparr>status_code = 200,
     resp_headers = [(''mcp-session-id'', ''abc123'')],
     resp_json = Some (JObj [(''result'', JObj [(''serverInfo'',
                   JObj [(''name'', JStr ''demo''), (''version'', JStr ''1.0'')])])])\<rparr>"

definition accepted :: reply where
  "accepted = Response \<lparr>status_code = 202, resp_headers = [], resp_json = None\<rparr>"

definition status_only :: "int \<Rightarrow> reply" where
  "status_only c = Response \<lparr>status_code = c, resp_headers = [], resp_json = None\<rparr>"

definition tools_ok :: reply where
  "tools_ok = Response \<lparr>status_code = 200, resp_headers = [],
     resp_json = Some (JObj [(''result'', JObj [(''tools'',
                   JArr [JObj [(''name'', JStr ''ls''), (''description'', JStr ''List files'')],
                         JObj [(''name'', JStr ''cat'')]])])])\<rparr>"

definition call_reply :: "(string \<times> json) list \<Rightarrow> reply" where
  "call_reply body = Response \<lparr>status_code = 200, resp_headers = [], resp_json = Some (JObj body)\<rparr>"

definition call_ok :: reply where
  "call_ok = call_reply [(''result'', JObj [(''isError'', JBool False),
                 (''content'', JArr [JObj [(''text'', JStr ''file1 file2'')]])])]"

definition call_tool_error :: reply where
  "call_tool_error = call_reply [(''result'', JObj [(''isError'', JBool True),
                 (''content'', JArr [JObj [(''text'', JStr ''not found'')]])])]"

definition call_rpc_error :: reply where
  "call_rpc_error = call_reply [(''error'', JObj [(''code'', JInt (- 32601)),
                 (''message'', JStr ''Method not found'')])]"

section \<open>Properties of the request builder\<close>

text \<open>
  C9. For every method, params and req_id the body built by \<open>jsonrpc\<close> has the keys
  jsonrpc, id and method with the values "2.0", req_id (1 when left out) and the method,
  no other key except params, and the key params exactly when the params given are
  neither None nor the empty dict; it then holds those params.
\<close>

theorem jsonrpc_body:
  "map_of (jsonrpc m p r) ''jsonrpc'' = Some (JStr ''2.0'')
   \<and> map_of (jsonrpc m p r) ''id'' = Some (JInt (case r of None \<Rightarrow> 1 | Some i \<Rightarrow> i))
   \<and> map_of (jsonrpc m p r) ''method'' = Some (JStr m)
   \<and> map_of (jsonrpc m p r) ''params'' = (if p = None \<or> p = Some [] then None else map_option JObj p)
   \<and> map fst (jsonrpc m p r) =
       [''jsonrpc'', ''id'', ''method''] @ (if p = None \<or> p = Some [] then [] else [''params''])"
  by (cases p) (simp_all add: jsonrpc_def)

end
